theory Spec2Isabelle
  imports Complex_Main
begin

section \<open>The DPD thermostat of ESPResSo++ (\<open>src/DPDThermostat.cpp\<close>)\<close>

text \<open>
  The thermostat adds, for every pair of the Verlet list that lies within the cutoff,
  a friction force and a random force to the two particles of the pair. There are two
  kernels: \<open>frictionThermoDPD\<close> (force along the line of centres) and
  \<open>frictionThermoTDPD\<close> (force orthogonal to it).

  The C++ type \<open>real\<close> (a double) is modelled by the type \<^typ>\<open>real\<close>: rounding is
  not part of the model. Where a kernel divides by zero (the source then carries on with
  an infinity or a NaN in the forces) the kernel of the model stops with the error
  \<open>NotFinite\<close> instead of using the value that HOL gives to \<open>x / 0\<close>.

  The source file carries unresolved merge markers. The two sides differ in blank
  lines, in one comment, in the line breaks of the \<open>f_damp\<close> formulas and, in
  \<open>frictionThermoTDPD\<close>, in the declared type of \<open>veldiff\<close> (\<open>Real3D\<close> on the
  \<open>HEAD\<close> side, \<open>real\<close> on the other). \<open>veldiff\<close> is indexed as a vector
  afterwards, so the model follows the \<open>HEAD\<close> side.
\<close>

subsection \<open>Three-component vectors\<close>

text \<open>
  Modelled from the spec: \<open>Real3D.hpp\<close> is not among the sources. The spec uses its
  operators componentwise: difference and sum of vectors, the scalar product
  (\<open>Real3D * Real3D\<close> in the source), scaling by a number (\<open>real * Real3D\<close>,
  \<open>Real3D *= real\<close>), division by a number (\<open>Real3D /= real\<close>), the squared length
  \<open>sqr()\<close> and indexing \<open>v[0]\<close>, \<open>v[1]\<close>, \<open>v[2]\<close>.
\<close>

datatype Real3D = Real3D (at0: real) (at1: real) (at2: real)

instantiation Real3D :: ab_group_add
begin

definition zero_Real3D :: Real3D where
  "zero_Real3D = Real3D 0 0 0"

definition plus_Real3D :: "Real3D \<Rightarrow> Real3D \<Rightarrow> Real3D" where
  "plus_Real3D a b = Real3D (at0 a + at0 b) (at1 a + at1 b) (at2 a + at2 b)"

definition minus_Real3D :: "Real3D \<Rightarrow> Real3D \<Rightarrow> Real3D" where
  "minus_Real3D a b = Real3D (at0 a - at0 b) (at1 a - at1 b) (at2 a - at2 b)"

definition uminus_Real3D :: "Real3D \<Rightarrow> Real3D" where
  "uminus_Real3D a = Real3D (- at0 a) (- at1 a) (- at2 a)"

instance
  by standard
    (simp_all add: zero_Real3D_def plus_Real3D_def minus_Real3D_def uminus_Real3D_def
      Real3D.expand)

end

definition r3_dot :: "Real3D \<Rightarrow> Real3D \<Rightarrow> real" where
  "r3_dot a b = at0 a * at0 b + at1 a * at1 b + at2 a * at2 b"

definition r3_sqr :: "Real3D \<Rightarrow> real" where
  "r3_sqr a = at0 a * at0 a + at1 a * at1 a + at2 a * at2 a"

definition r3_scale :: "real \<Rightarrow> Real3D \<Rightarrow> Real3D" where
  "r3_scale c a = Real3D (c * at0 a) (c * at1 a) (c * at2 a)"

definition r3_div :: "Real3D \<Rightarrow> real \<Rightarrow> Real3D" where
  "r3_div a c = Real3D (at0 a / c) (at1 a / c) (at2 a / c)"

subsection \<open>Particles, the random source, the system\<close>

record Particle =
  position :: Real3D
  velocity :: Real3D
  force :: Real3D

text \<open>
  Modelled from the spec: \<open>esutil/RNG.hpp\<close> is not among the sources. The random
  source returns one uniform number per call; here it is the sequence \<open>draws\<close> of the
  numbers it will return and the count \<open>drawn\<close> of calls made so far.
\<close>

record RNG =
  draws :: "nat \<Rightarrow> real"
  drawn :: nat

definition rng_call :: "RNG \<Rightarrow> real \<times> RNG" where
  "rng_call g = (draws g (drawn g), g\<lparr>drawn := Suc (drawn g)\<rparr>)"

text \<open>
  The part of \<open>System\<close> that the thermostat reads and writes. Particles live in
  \<open>storage\<close> and are referred to by their address, as the pair list does with its
  \<open>Particle*\<close>. \<open>rng\<close> is the shared pointer to the random source (\<open>None\<close> is the
  null pointer); the random sources themselves live in \<open>rng_heap\<close>, so that the copy of
  the pointer held by the thermostat and the one held by the system name one object.
\<close>

record System =
  skin :: real
  rng :: "nat option"
  rng_heap :: "nat \<Rightarrow> RNG"
  ifShear :: bool
  ifViscosity :: bool
  dyadicP_xz :: real
  dyadicP_zx :: real
  storage :: "nat \<Rightarrow> Particle"

record VerletList =
  verletCutoff :: real
  pairs :: "(nat \<times> nat) list"

record DPDThermostat =
  verletList :: VerletList
  this_rng :: "nat option"
  gamma :: real
  tgamma :: real
  temperature :: real
  current_cutoff :: real
  current_cutoff_sqr :: real
  pref1 :: real
  pref2 :: real
  pref3 :: real
  pref4 :: real
  pref2buffer :: real
  pref4buffer :: real

datatype error = RuntimeError string | NullPointer | NotFinite

subsection \<open>Construction and the setters\<close>

text \<open>
  The constructor assigns \<open>verletList\<close>, \<open>gamma\<close>, \<open>temperature\<close>, the two cutoff
  fields and, when the system has a random source, \<open>rng\<close>. The first argument \<open>mem\<close>
  is the object before the constructor body runs: a field that the constructor does not
  assign keeps the value it has there. The \<open>Extension\<close> base part (the type tag and the
  signal connections) holds nothing that the kernels read and is left out.
\<close>

definition DPDThermostat_ctor ::
  "DPDThermostat \<Rightarrow> System \<Rightarrow> VerletList \<Rightarrow> error + DPDThermostat" where
  "DPDThermostat_ctor mem system vl =
    (let th1 = mem\<lparr>verletList := vl\<rparr>;
         th2 = th1\<lparr>gamma := 0\<rparr>;
         th3 = th2\<lparr>temperature := 0\<rparr>;
         th4 = th3\<lparr>current_cutoff := verletCutoff (verletList th3) - skin system\<rparr>;
         th5 = th4\<lparr>current_cutoff_sqr := current_cutoff th4 * current_cutoff th4\<rparr>
     in case rng system of
          None \<Rightarrow> Inl (RuntimeError ''system has no RNG'')
        | Some a \<Rightarrow> Inr (th5\<lparr>this_rng := Some a\<rparr>))"

definition setGamma :: "real \<Rightarrow> DPDThermostat \<Rightarrow> DPDThermostat" where
  "setGamma g th = th\<lparr>gamma := g\<rparr>"

definition setTGamma :: "real \<Rightarrow> DPDThermostat \<Rightarrow> DPDThermostat" where
  "setTGamma g th = th\<lparr>tgamma := g\<rparr>"

definition setTemperature :: "real \<Rightarrow> DPDThermostat \<Rightarrow> DPDThermostat" where
  "setTemperature t th = th\<lparr>temperature := t\<rparr>"

subsection \<open>The prefactors\<close>

text \<open>
  \<open>initialize\<close> reads the cutoff of the Verlet list, the skin of the system and the
  time step of the integrator (the argument \<open>timestep\<close>). It cannot fail: it makes its
  six assignments whatever the values are. When the time step is \<open>0\<close> or a radicand is
  negative, the double that the source stores in \<open>pref2\<close> or \<open>pref4\<close> is an infinity
  or a NaN, for which no real number stands; what is proved of \<open>pref2\<close> and \<open>pref4\<close>
  below therefore assumes a time step other than \<open>0\<close> and radicands that are not
  negative. The cutoff, \<open>pref1\<close> and \<open>pref3\<close> do not depend on that.
\<close>

definition initialize :: "real \<Rightarrow> System \<Rightarrow> DPDThermostat \<Rightarrow> DPDThermostat" where
  "initialize timestep system th =
    (let th1 = th\<lparr>current_cutoff := verletCutoff (verletList th) - skin system\<rparr>;
         th2 = th1\<lparr>current_cutoff_sqr := current_cutoff th1 * current_cutoff th1\<rparr>;
         th3 = th2\<lparr>pref1 := gamma th2\<rparr>;
         th4 = th3\<lparr>pref2 := sqrt (24 * temperature th3 * gamma th3 / timestep)\<rparr>;
         th5 = th4\<lparr>pref3 := tgamma th4\<rparr>;
         th6 = th5\<lparr>pref4 := sqrt (24 * temperature th5 * tgamma th5 / timestep)\<rparr>
     in th6)"

definition heatUp :: "DPDThermostat \<Rightarrow> DPDThermostat" where
  "heatUp th =
    (let th1 = th\<lparr>pref2buffer := pref2 th\<rparr>;
         th2 = th1\<lparr>pref2 := pref2 th1 * sqrt 3\<rparr>;
         th3 = th2\<lparr>pref4buffer := pref4 th2\<rparr>;
         th4 = th3\<lparr>pref4 := pref4 th3 * sqrt 3\<rparr>
     in th4)"

definition coolDown :: "DPDThermostat \<Rightarrow> DPDThermostat" where
  "coolDown th =
    (let th1 = th\<lparr>pref2 := pref2buffer th\<rparr>;
         th2 = th1\<lparr>pref4 := pref4buffer th1\<rparr>
     in th2)"

subsection \<open>The pair kernels\<close>

text \<open>One call \<open>(*rng)()\<close> through the thermostat's pointer.\<close>

definition draw :: "DPDThermostat \<Rightarrow> System \<Rightarrow> error + (real \<times> System)" where
  "draw th system =
    (case this_rng th of
       None \<Rightarrow> Inl NullPointer
     | Some a \<Rightarrow>
         (let (u, g) = rng_call (rng_heap system a)
          in Inr (u, system\<lparr>rng_heap := (rng_heap system)(a := g)\<rparr>)))"

text \<open>\<open>p.force() += f\<close> and \<open>p.force() -= f\<close> on the particle at address \<open>p\<close>.\<close>

definition force_add :: "nat \<Rightarrow> Real3D \<Rightarrow> System \<Rightarrow> System" where
  "force_add p f system =
    system\<lparr>storage := (storage system)(p := (storage system p)\<lparr>force := force (storage system p) + f\<rparr>)\<rparr>"

definition force_sub :: "nat \<Rightarrow> Real3D \<Rightarrow> System \<Rightarrow> System" where
  "force_sub p f system =
    system\<lparr>storage := (storage system)(p := (storage system p)\<lparr>force := force (storage system p) - f\<rparr>)\<rparr>"

text \<open>The stress bookkeeping at the end of both kernels.\<close>

definition stress :: "Real3D \<Rightarrow> Real3D \<Rightarrow> System \<Rightarrow> System" where
  "stress r f system =
    (if ifShear system \<and> ifViscosity system
     then (let s1 = system\<lparr>dyadicP_xz := dyadicP_xz system + at0 r * at2 f\<rparr>
           in s1\<lparr>dyadicP_zx := dyadicP_zx s1 + at2 r * at0 f\<rparr>)
     else system)"

definition frictionThermoDPD :: "DPDThermostat \<Rightarrow> nat \<Rightarrow> nat \<Rightarrow> System \<Rightarrow> error + System" where
  "frictionThermoDPD th p1 p2 system =
    (let r = position (storage system p1) - position (storage system p2);
         dist2 = r3_sqr r
     in if dist2 < current_cutoff_sqr th then
          (let dist = sqrt dist2
           in if current_cutoff th = 0 \<or> dist = 0 then Inl NotFinite
              else
                (let omega = 1 - dist / current_cutoff th;
                     omega2 = omega * omega;
                     r = r3_div r dist;
                     veldiff = r3_dot (velocity (storage system p1) - velocity (storage system p2)) r;
                     friction = pref1 th * omega2 * veldiff
                 in case draw th system of
                      Inl e \<Rightarrow> Inl e
                    | Inr (u, system1) \<Rightarrow>
                        (let r0 = u - 0.5;
                             noise = pref2 th * omega * r0;
                             f = r3_scale (noise - friction) r;
                             system2 = force_add p1 f system1;
                             system3 = force_sub p2 f system2
                         in Inr (stress r f system3))))
        else Inr system)"

text \<open>
  The projector of the transverse kernel, as the source writes it out for \<open>f_damp\<close>
  and for \<open>f_rand\<close>: row \<open>i\<close> of \<open>(I - r r\<^sup>T) v\<close>.
\<close>

definition project :: "Real3D \<Rightarrow> Real3D \<Rightarrow> Real3D" where
  "project r v = Real3D
     ((1 - at0 r * at0 r) * at0 v - at0 r * at1 r * at1 v - at0 r * at2 r * at2 v)
     ((1 - at1 r * at1 r) * at1 v - at1 r * at0 r * at0 v - at1 r * at2 r * at2 v)
     ((1 - at2 r * at2 r) * at2 v - at2 r * at0 r * at0 v - at2 r * at1 r * at1 v)"

text \<open>The three calls that fill \<open>noisevec\<close>, in the order of the source.\<close>

definition draw3 :: "DPDThermostat \<Rightarrow> System \<Rightarrow> error + (Real3D \<times> System)" where
  "draw3 th system =
    (case draw th system of
       Inl e \<Rightarrow> Inl e
     | Inr (u0, s0) \<Rightarrow>
        (case draw th s0 of
           Inl e \<Rightarrow> Inl e
         | Inr (u1, s1) \<Rightarrow>
            (case draw th s1 of
               Inl e \<Rightarrow> Inl e
             | Inr (u2, s2) \<Rightarrow> Inr (Real3D (u0 - 0.5) (u1 - 0.5) (u2 - 0.5), s2))))"

definition frictionThermoTDPD :: "DPDThermostat \<Rightarrow> nat \<Rightarrow> nat \<Rightarrow> System \<Rightarrow> error + System" where
  "frictionThermoTDPD th p1 p2 system =
    (let r = position (storage system p1) - position (storage system p2);
         dist2 = r3_sqr r
     in if dist2 < current_cutoff_sqr th then
          (let dist = sqrt dist2
           in if current_cutoff th = 0 \<or> dist = 0 then Inl NotFinite
              else
                (let omega = 1 - dist / current_cutoff th;
                     omega2 = omega * omega;
                     r = r3_div r dist
                 in case draw3 th system of
                      Inl e \<Rightarrow> Inl e
                    | Inr (noisevec, system1) \<Rightarrow>
                        (let veldiff = velocity (storage system1 p1) - velocity (storage system1 p2);
                             f_damp = project r veldiff;
                             f_rand = project r noisevec;
                             f_damp = r3_scale (pref3 th * omega2) f_damp;
                             f_rand = r3_scale (pref4 th * omega) f_rand;
                             f_tmp = f_rand - f_damp;
                             system2 = force_add p1 f_tmp system1;
                             system3 = force_sub p2 f_tmp system2
                         in Inr (stress r f_tmp system3))))
        else Inr system)"

subsection \<open>The loop over the pair list\<close>

definition thermalize_pair :: "DPDThermostat \<Rightarrow> nat \<times> nat \<Rightarrow> System \<Rightarrow> error + System" where
  "thermalize_pair th p system =
    (case (if gamma th > 0 then frictionThermoDPD th (fst p) (snd p) system else Inr system) of
       Inl e \<Rightarrow> Inl e
     | Inr system1 \<Rightarrow>
         (if tgamma th > 0 then frictionThermoTDPD th (fst p) (snd p) system1 else Inr system1))"

fun thermalize_loop :: "DPDThermostat \<Rightarrow> (nat \<times> nat) list \<Rightarrow> System \<Rightarrow> error + System" where
  "thermalize_loop th [] system = Inr system"
| "thermalize_loop th (p # ps) system =
    (case thermalize_pair th p system of
       Inl e \<Rightarrow> Inl e
     | Inr system1 \<Rightarrow> thermalize_loop th ps system1)"

text \<open>
  \<open>updateGhostsV\<close> belongs to the storage, which is not among the sources: it is a
  parameter of \<open>thermalize\<close>.
\<close>

definition thermalize :: "(System \<Rightarrow> System) \<Rightarrow> DPDThermostat \<Rightarrow> System \<Rightarrow> error + System" where
  "thermalize updateGhostsV th system =
    thermalize_loop th (pairs (verletList th)) (updateGhostsV system)"


subsection \<open>The operations on a thermostat object\<close>

text \<open>
  After its construction the object is changed by the three setters (the properties
  registered with Python) and by \<open>initialize\<close>, \<open>heatUp\<close> and \<open>coolDown\<close> (the
  signals that \<open>connect\<close> binds); \<open>thermalize\<close> changes the system, not the object.
  \<open>calls\<close> makes a list of such calls, first to last.
\<close>

datatype call =
    SetGamma real
  | SetTGamma real
  | SetTemperature real
  | Initialize real System
  | HeatUp
  | CoolDown

fun call_step :: "call \<Rightarrow> DPDThermostat \<Rightarrow> DPDThermostat" where
  "call_step (SetGamma x) th = setGamma x th"
| "call_step (SetTGamma x) th = setTGamma x th"
| "call_step (SetTemperature x) th = setTemperature x th"
| "call_step (Initialize timestep system) th = initialize timestep system th"
| "call_step HeatUp th = heatUp th"
| "call_step CoolDown th = coolDown th"

fun calls :: "call list \<Rightarrow> DPDThermostat \<Rightarrow> DPDThermostat" where
  "calls [] th = th"
| "calls (c # cs) th = calls cs (call_step c th)"

fun is_setTGamma :: "call \<Rightarrow> bool" where
  "is_setTGamma (SetTGamma x) = True"
| "is_setTGamma (SetGamma x) = False"
| "is_setTGamma (SetTemperature x) = False"
| "is_setTGamma (Initialize timestep system) = False"
| "is_setTGamma HeatUp = False"
| "is_setTGamma CoolDown = False"

subsection \<open>Definitions used in the statements\<close>

text \<open>
  The transverse projector in the words of the spec, \<open>P\<cdot>v = v - r (r\<cdot>v)\<close>, to be
  compared with \<open>project\<close>, which is what the source computes.
\<close>

definition transverse_spec :: "Real3D \<Rightarrow> Real3D \<Rightarrow> Real3D" where
  "transverse_spec r v = v - r3_scale (r3_dot r v) r"

text \<open>The system after \<open>k\<close> further calls of the random source at address \<open>a\<close>.\<close>

definition advance :: "nat \<Rightarrow> nat \<Rightarrow> System \<Rightarrow> System" where
  "advance a k system =
     system\<lparr>rng_heap := (rng_heap system)(a := (rng_heap system a)\<lparr>drawn := drawn (rng_heap system a) + k\<rparr>)\<rparr>"

subsection \<open>A concrete configuration\<close>

text \<open>
  Three particles on a line through the origin, at distance \<open>1/2\<close> from one another;
  particle \<open>n\<close> moves along the x axis with velocity \<open>1 - n\<close>. The random source
  returns \<open>1/3, 1/4, 1/5, \<dots>\<close>. The Verlet list has cutoff \<open>3/2\<close> and the skin is
  \<open>1/2\<close>, so the cutoff of the thermostat is \<open>1\<close>: particles \<open>0\<close> and \<open>1\<close> interact,
  particles \<open>0\<close> and \<open>2\<close> are exactly at the cutoff. The thermostat \<open>ex_th\<close> has
  the prefactors that \<open>initialize\<close> computes for the time step \<open>6\<close>.
\<close>

definition ex_storage :: "nat \<Rightarrow> Particle" where
  "ex_storage n =
    \<lparr>position = Real3D (3 * real n / 10) (4 * real n / 10) 0,
     velocity = Real3D (1 - real n) 0 0,
     force = Real3D 0 0 0\<rparr>"

definition ex_rng :: RNG where
  "ex_rng = \<lparr>draws = (\<lambda>k. 1 / (real k + 3)), drawn = 0\<rparr>"

definition ex_system :: System where
  "ex_system =
    \<lparr>skin = 1 / 2, rng = Some 0, rng_heap = (\<lambda>a. ex_rng), ifShear = True, ifViscosity = True,
     dyadicP_xz = 0, dyadicP_zx = 0, storage = ex_storage\<rparr>"

definition ex_vl :: VerletList where
  "ex_vl = \<lparr>verletCutoff = 3 / 2, pairs = [(0, 1), (0, 2)]\<rparr>"

definition ex_th :: DPDThermostat where
  "ex_th =
    \<lparr>verletList = ex_vl, this_rng = Some 0, gamma = 1, tgamma = 4, temperature = 1,
     current_cutoff = 1, current_cutoff_sqr = 1,
     pref1 = 1, pref2 = 2, pref3 = 4, pref4 = 4, pref2buffer = 0, pref4buffer = 0\<rparr>"

text \<open>
  An object before its constructor has run: every field holds what the memory held,
  here \<open>7\<close> for \<open>tgamma\<close>.
\<close>

definition ex_mem :: DPDThermostat where
  "ex_mem =
    \<lparr>verletList = \<lparr>verletCutoff = 0, pairs = []\<rparr>, this_rng = None,
     gamma = 5, tgamma = 7, temperature = 6,
     current_cutoff = 0, current_cutoff_sqr = 0,
     pref1 = 0, pref2 = 0, pref3 = 0, pref4 = 0, pref2buffer = 0, pref4buffer = 0\<rparr>"

section \<open>Auxiliary facts\<close>

subsection \<open>Vectors\<close>

lemma r3_sqr_nonneg: "0 \<le> r3_sqr r"
  by (simp add: r3_sqr_def)

lemma r3_sqr_div: "r3_sqr (r3_div r c) = r3_sqr r / (c * c)"
  by (simp add: r3_sqr_def r3_div_def add_divide_distrib)

lemma unit_length:
  assumes "sqrt (r3_sqr r) \<noteq> 0"
  shows "r3_sqr (r3_div r (sqrt (r3_sqr r))) = 1"
proof -
  have "sqrt (r3_sqr r) * sqrt (r3_sqr r) = r3_sqr r"
    using r3_sqr_nonneg [of r] by simp
  moreover have "r3_sqr r \<noteq> 0"
    using assms by auto
  ultimately show ?thesis
    by (simp add: r3_sqr_div)
qed

lemma project_dot: "r3_dot r (project r v) = r3_dot r v * (1 - r3_sqr r)"
  by (simp add: r3_dot_def project_def r3_sqr_def algebra_simps)

lemma dot_scale: "r3_dot r (r3_scale c v) = c * r3_dot r v"
  by (simp add: r3_dot_def r3_scale_def algebra_simps)

lemma dot_minus: "r3_dot r (a - b) = r3_dot r a - r3_dot r b"
  by (simp add: r3_dot_def minus_Real3D_def algebra_simps)

lemma dot_zero: "r3_dot r 0 = 0"
  by (simp add: r3_dot_def zero_Real3D_def)

lemma project_transverse_spec: "project r v = transverse_spec r v"
  by (cases r, cases v)
    (simp add: project_def transverse_spec_def minus_Real3D_def r3_scale_def r3_dot_def
      algebra_simps)

subsection \<open>The random source and the force updates\<close>

lemma draw_advance:
  "this_rng th = Some a \<Longrightarrow>
   draw th system = Inr (draws (rng_heap system a) (drawn (rng_heap system a)), advance a 1 system)"
  by (simp add: draw_def rng_call_def advance_def)

lemma draw3_advance:
  "this_rng th = Some a \<Longrightarrow>
   draw3 th system =
     Inr (Real3D (draws (rng_heap system a) (drawn (rng_heap system a)) - 0.5)
                 (draws (rng_heap system a) (drawn (rng_heap system a) + 1) - 0.5)
                 (draws (rng_heap system a) (drawn (rng_heap system a) + 2) - 0.5),
          advance a 3 system)"
  by (simp add: draw3_def draw_def rng_call_def advance_def eval_nat_numeral)

lemma storage_advance [simp]: "storage (advance a k system) = storage system"
  by (simp add: advance_def)

lemma rng_heap_advance [simp]:
  "rng_heap (advance a k system) a = (rng_heap system a)\<lparr>drawn := drawn (rng_heap system a) + k\<rparr>"
  by (simp add: advance_def)

lemma storage_stress [simp]: "storage (stress r f system) = storage system"
  by (simp add: stress_def Let_def)

lemma rng_heap_stress [simp]: "rng_heap (stress r f system) = rng_heap system"
  by (simp add: stress_def Let_def)

lemma rng_heap_force [simp]:
  "rng_heap (force_sub p2 f (force_add p1 f system)) = rng_heap system"
  by (simp add: force_add_def force_sub_def)

lemma force_pair:
  "p1 \<noteq> p2 \<Longrightarrow>
   force (storage (force_sub p2 f (force_add p1 f system)) p1) = force (storage system p1) + f \<and>
   force (storage (force_sub p2 f (force_add p1 f system)) p2) = force (storage system p2) - f"
  by (simp add: force_add_def force_sub_def)

lemma apart_distinct:
  "sqrt (r3_sqr (position (storage system p1) - position (storage system p2))) \<noteq> 0 \<Longrightarrow> p1 \<noteq> p2"
  by (auto simp add: r3_sqr_def minus_Real3D_def)

lemma cutoff_nonzero:
  "current_cutoff_sqr th = current_cutoff th * current_cutoff th \<Longrightarrow>
   r3_sqr r < current_cutoff_sqr th \<Longrightarrow> current_cutoff th \<noteq> 0"
  using r3_sqr_nonneg [of r] by auto

subsection \<open>What every thermostat object satisfies\<close>

text \<open>
  The kernels are stated for a thermostat that has a random source and whose
  \<open>current_cutoff_sqr\<close> is the square of \<open>current_cutoff\<close>. The constructor
  establishes both, and every other operation keeps them.
\<close>

lemma ctor_establishes:
  "DPDThermostat_ctor mem system vl = Inr th \<Longrightarrow>
   this_rng th = rng system \<and> this_rng th \<noteq> None
   \<and> current_cutoff_sqr th = current_cutoff th * current_cutoff th"
  by (auto simp add: DPDThermostat_ctor_def Let_def split: option.splits)

lemma initialize_keeps:
  "this_rng (initialize timestep system th) = this_rng th
   \<and> current_cutoff_sqr (initialize timestep system th)
       = current_cutoff (initialize timestep system th) * current_cutoff (initialize timestep system th)"
  by (simp add: initialize_def Let_def)

lemma setters_keep:
  "this_rng (setGamma x th) = this_rng th \<and> current_cutoff (setGamma x th) = current_cutoff th
   \<and> current_cutoff_sqr (setGamma x th) = current_cutoff_sqr th"
  "this_rng (setTGamma x th) = this_rng th \<and> current_cutoff (setTGamma x th) = current_cutoff th
   \<and> current_cutoff_sqr (setTGamma x th) = current_cutoff_sqr th"
  "this_rng (setTemperature x th) = this_rng th \<and> current_cutoff (setTemperature x th) = current_cutoff th
   \<and> current_cutoff_sqr (setTemperature x th) = current_cutoff_sqr th"
  by (simp_all add: setGamma_def setTGamma_def setTemperature_def)

lemma heatUp_coolDown_keep:
  "this_rng (heatUp th) = this_rng th \<and> current_cutoff (heatUp th) = current_cutoff th
   \<and> current_cutoff_sqr (heatUp th) = current_cutoff_sqr th"
  "this_rng (coolDown th) = this_rng th \<and> current_cutoff (coolDown th) = current_cutoff th
   \<and> current_cutoff_sqr (coolDown th) = current_cutoff_sqr th"
  by (simp_all add: heatUp_def coolDown_def Let_def)

subsection \<open>What leaves \<open>tgamma\<close> and the Verlet list alone\<close>

lemma setGamma_frame:
  "tgamma (setGamma x th) = tgamma th" "verletList (setGamma x th) = verletList th"
  by (simp_all add: setGamma_def)

lemma setTemperature_frame:
  "tgamma (setTemperature x th) = tgamma th" "verletList (setTemperature x th) = verletList th"
  by (simp_all add: setTemperature_def)

lemma initialize_frame:
  "tgamma (initialize timestep system th) = tgamma th"
  "verletList (initialize timestep system th) = verletList th"
  by (simp_all add: initialize_def Let_def)

lemma heatUp_frame:
  "tgamma (heatUp th) = tgamma th" "verletList (heatUp th) = verletList th"
  by (simp_all add: heatUp_def Let_def)

lemma coolDown_frame:
  "tgamma (coolDown th) = tgamma th" "verletList (coolDown th) = verletList th"
  by (simp_all add: coolDown_def Let_def)

lemma call_step_frame:
  "\<not> is_setTGamma c \<Longrightarrow> tgamma (call_step c th) = tgamma th"
  "verletList (call_step c th) = verletList th"
  by (cases c; simp add: setGamma_frame setTemperature_frame initialize_frame heatUp_frame
      coolDown_frame setTGamma_def)+

lemma calls_verletList: "verletList (calls cs th) = verletList th"
  by (induction cs arbitrary: th) (simp_all add: call_step_frame)

lemma calls_tgamma:
  "\<forall>c \<in> set cs. \<not> is_setTGamma c \<Longrightarrow> tgamma (calls cs th) = tgamma th"
  by (induction cs arbitrary: th) (simp_all add: call_step_frame)

subsection \<open>What the kernels return for a pair within the cutoff\<close>

lemma DPD_within:
  assumes "this_rng th = Some a"
    and "r3_sqr (position (storage system p1) - position (storage system p2)) < current_cutoff_sqr th"
    and "sqrt (r3_sqr (position (storage system p1) - position (storage system p2))) \<noteq> 0"
    and "current_cutoff th \<noteq> 0"
  shows "frictionThermoDPD th p1 p2 system =
    (let r = position (storage system p1) - position (storage system p2);
         dist = sqrt (r3_sqr r);
         omega = 1 - dist / current_cutoff th;
         rhat = r3_div r dist;
         u = draws (rng_heap system a) (drawn (rng_heap system a));
         f = r3_scale (pref2 th * omega * (u - 0.5)
               - pref1 th * (omega * omega)
                  * r3_dot (velocity (storage system p1) - velocity (storage system p2)) rhat) rhat
     in Inr (stress rhat f (force_sub p2 f (force_add p1 f (advance a 1 system)))))"
  using assms by (simp add: frictionThermoDPD_def Let_def draw_advance)

lemma TDPD_within:
  assumes "this_rng th = Some a"
    and "r3_sqr (position (storage system p1) - position (storage system p2)) < current_cutoff_sqr th"
    and "sqrt (r3_sqr (position (storage system p1) - position (storage system p2))) \<noteq> 0"
    and "current_cutoff th \<noteq> 0"
  shows "frictionThermoTDPD th p1 p2 system =
    (let r = position (storage system p1) - position (storage system p2);
         dist = sqrt (r3_sqr r);
         omega = 1 - dist / current_cutoff th;
         rhat = r3_div r dist;
         g = rng_heap system a;
         n = Real3D (draws g (drawn g) - 0.5) (draws g (drawn g + 1) - 0.5) (draws g (drawn g + 2) - 0.5);
         f = r3_scale (pref4 th * omega) (project rhat n)
             - r3_scale (pref3 th * (omega * omega))
                 (project rhat (velocity (storage system p1) - velocity (storage system p2)))
     in Inr (stress rhat f (force_sub p2 f (force_add p1 f (advance a 3 system)))))"
  using assms by (simp add: frictionThermoTDPD_def Let_def draw3_advance)

subsection \<open>The concrete configuration, evaluated\<close>

lemma sqrt_quarter: "sqrt (1 / 4) = 1 / 2"
  by (simp add: real_sqrt_divide)

lemma sqrt_16: "sqrt 16 = 4"
  by (rule real_sqrt_unique) simp_all

lemma add_sub_opposite: "(x + f) - x = - ((y - f) - y)" for x y f :: Real3D
  by simp

lemma ex_system_sel:
  "storage ex_system = ex_storage" "rng_heap ex_system a = ex_rng"
  by (simp_all add: ex_system_def)

lemma ex_separation_01:
  "position (storage ex_system 0) - position (storage ex_system (Suc 0)) = Real3D (- (3 / 10)) (- (2 / 5)) 0"
  by (simp add: ex_system_def ex_storage_def minus_Real3D_def)

lemma ex_dist2_01:
  "r3_sqr (position (storage ex_system 0) - position (storage ex_system (Suc 0))) = 1 / 4"
  by (simp add: ex_separation_01 r3_sqr_def)

lemma ex_dist_01:
  "sqrt (r3_sqr (position (storage ex_system 0) - position (storage ex_system (Suc 0)))) = 1 / 2"
  by (simp add: ex_dist2_01 sqrt_quarter)

lemma ex_dist2_02:
  "r3_sqr (position (storage ex_system 0) - position (storage ex_system 2)) = 1"
  by (simp add: ex_system_def ex_storage_def minus_Real3D_def r3_sqr_def)

section \<open>Verified properties\<close>

text \<open>
  C7. A pair whose squared separation is not below \<open>current_cutoff_sqr\<close> is skipped by
  both kernels: the system they return is the system they were given, with every force,
  both stress accumulators and the random source as they were.
\<close>

theorem beyond_cutoff_no_effect:
  assumes "current_cutoff_sqr th \<le> r3_sqr (position (storage system p1) - position (storage system p2))"
  shows "frictionThermoDPD th p1 p2 system = Inr system
       \<and> frictionThermoTDPD th p1 p2 system = Inr system"
  using assms by (simp add: frictionThermoDPD_def frictionThermoTDPD_def Let_def)

theorem beyond_cutoff_no_effect_witness:
  "current_cutoff_sqr ex_th \<le> r3_sqr (position (storage ex_system 0) - position (storage ex_system 2))
   \<and> frictionThermoDPD ex_th 0 2 ex_system = Inr ex_system
   \<and> frictionThermoTDPD ex_th 0 2 ex_system = Inr ex_system"
proof -
  have h: "current_cutoff_sqr ex_th \<le> r3_sqr (position (storage ex_system 0) - position (storage ex_system 2))"
    by (simp add: ex_dist2_02 ex_th_def)
  show ?thesis
    using h beyond_cutoff_no_effect [OF h] by simp
qed

text \<open>
  C6. \<open>heatUp\<close> stores \<open>pref2\<close> and \<open>pref4\<close> in the two buffers and multiplies both by
  \<open>sqrt 3\<close>; \<open>coolDown\<close> after it gives \<open>pref2\<close> and \<open>pref4\<close> their values from
  before \<open>heatUp\<close>. Of the whole object only the two buffers differ afterwards.
\<close>

theorem heatUp_coolDown_roundtrip:
  "pref2buffer (heatUp th) = pref2 th \<and> pref4buffer (heatUp th) = pref4 th
   \<and> pref2 (heatUp th) = pref2 th * sqrt 3 \<and> pref4 (heatUp th) = pref4 th * sqrt 3
   \<and> pref2 (coolDown (heatUp th)) = pref2 th \<and> pref4 (coolDown (heatUp th)) = pref4 th
   \<and> coolDown (heatUp th) = th\<lparr>pref2buffer := pref2 th, pref4buffer := pref4 th\<rparr>"
  by (simp add: heatUp_def coolDown_def Let_def)

text \<open>
  C2. For a pair with squared separation below \<open>current_cutoff_sqr\<close> and distance
  \<open>dist > 0\<close> the scalar kernel returns a system in which the force of \<open>p1\<close> has
  grown by \<open>f = (pref2 \<omega> (u - 0.5) - pref1 \<omega>\<^sup>2 ((v1 - v2) \<cdot> rhat)) rhat\<close> and the force
  of \<open>p2\<close> has shrunk by the same \<open>f\<close>, where \<open>\<omega> = 1 - dist / current_cutoff\<close>,
  \<open>rhat = (p1.pos - p2.pos) / dist\<close> and \<open>u\<close> is the next number of the random source,
  which has been called exactly once. The thermostat is one that the constructor or
  \<open>initialize\<close> has left: it has a random source and \<open>current_cutoff_sqr\<close> is the
  square of \<open>current_cutoff\<close>.
\<close>

theorem scalar_kernel_contribution:
  fixes th :: DPDThermostat and system :: System and p1 p2 a :: nat
    and r rhat f :: Real3D and dist omega u :: real
  defines "r \<equiv> position (storage system p1) - position (storage system p2)"
  defines "dist \<equiv> sqrt (r3_sqr r)"
  defines "omega \<equiv> 1 - dist / current_cutoff th"
  defines "rhat \<equiv> r3_div r dist"
  defines "u \<equiv> draws (rng_heap system a) (drawn (rng_heap system a))"
  defines "f \<equiv> r3_scale (pref2 th * omega * (u - 0.5)
                  - pref1 th * omega\<^sup>2
                     * r3_dot (velocity (storage system p1) - velocity (storage system p2)) rhat) rhat"
  assumes rng: "this_rng th = Some a"
    and sqr: "current_cutoff_sqr th = current_cutoff th * current_cutoff th"
    and within: "r3_sqr r < current_cutoff_sqr th"
    and apart: "0 < dist"
  shows "\<exists>system'. frictionThermoDPD th p1 p2 system = Inr system'
           \<and> force (storage system' p1) = force (storage system p1) + f
           \<and> force (storage system' p2) = force (storage system p2) - f
           \<and> rng_heap system' a = (rng_heap system a)\<lparr>drawn := Suc (drawn (rng_heap system a))\<rparr>"
proof -
  have nz: "sqrt (r3_sqr (position (storage system p1) - position (storage system p2))) \<noteq> 0"
    using apart by (simp add: dist_def r_def)
  have distinct: "p1 \<noteq> p2"
    using nz by (rule apart_distinct)
  have cut: "current_cutoff th \<noteq> 0"
    using sqr within by (rule cutoff_nonzero)
  have "frictionThermoDPD th p1 p2 system =
      Inr (stress rhat f (force_sub p2 f (force_add p1 f (advance a 1 system))))"
    using DPD_within [OF rng _ nz cut] within
    by (simp add: Let_def r_def dist_def omega_def rhat_def u_def f_def power2_eq_square)
  moreover have "force (storage (stress rhat f (force_sub p2 f (force_add p1 f (advance a 1 system)))) p1)
      = force (storage system p1) + f"
    using force_pair [OF distinct, of f "advance a 1 system"] by simp
  moreover have "force (storage (stress rhat f (force_sub p2 f (force_add p1 f (advance a 1 system)))) p2)
      = force (storage system p2) - f"
    using force_pair [OF distinct, of f "advance a 1 system"] by simp
  moreover have "rng_heap (stress rhat f (force_sub p2 f (force_add p1 f (advance a 1 system)))) a
      = (rng_heap system a)\<lparr>drawn := Suc (drawn (rng_heap system a))\<rparr>"
    by simp
  ultimately show ?thesis
    by blast
qed

theorem scalar_kernel_contribution_witness:
  "\<not> isl (frictionThermoDPD ex_th 0 (Suc 0) ex_system)
   \<and> force (storage (projr (frictionThermoDPD ex_th 0 (Suc 0) ex_system)) 0)
       = Real3D (1 / 100) (1 / 75) 0
   \<and> force (storage (projr (frictionThermoDPD ex_th 0 (Suc 0) ex_system)) (Suc 0))
       = Real3D (- (1 / 100)) (- (1 / 75)) 0
   \<and> drawn (rng_heap (projr (frictionThermoDPD ex_th 0 (Suc 0) ex_system)) 0) = 1"
proof -
  let ?r = "position (storage ex_system 0) - position (storage ex_system (Suc 0))"
  let ?d = "sqrt (r3_sqr ?r)"
  let ?omega = "1 - ?d / current_cutoff ex_th"
  let ?u = "draws (rng_heap ex_system 0) (drawn (rng_heap ex_system 0))"
  let ?f = "r3_scale (pref2 ex_th * ?omega * (?u - 0.5)
              - pref1 ex_th * ?omega\<^sup>2
                 * r3_dot (velocity (storage ex_system 0) - velocity (storage ex_system (Suc 0)))
                     (r3_div ?r ?d))
             (r3_div ?r ?d)"
  have h1: "this_rng ex_th = Some 0"
    by (simp add: ex_th_def)
  have h2: "current_cutoff_sqr ex_th = current_cutoff ex_th * current_cutoff ex_th"
    by (simp add: ex_th_def)
  have h3: "r3_sqr ?r < current_cutoff_sqr ex_th"
    by (simp add: ex_dist2_01 ex_th_def)
  have h4: "0 < ?d"
    by (simp add: ex_dist2_01)
  have f: "?f = Real3D (1 / 100) (1 / 75) 0"
    unfolding ex_dist_01 unfolding ex_separation_01
    by (simp add: ex_system_sel ex_storage_def ex_rng_def ex_th_def r3_div_def r3_dot_def
        r3_scale_def minus_Real3D_def power2_eq_square)
  from scalar_kernel_contribution [OF h1 h2 h3 h4]
  obtain s where s: "frictionThermoDPD ex_th 0 (Suc 0) ex_system = Inr s"
    and f0: "force (storage s 0) = force (storage ex_system 0) + ?f"
    and f1: "force (storage s (Suc 0)) = force (storage ex_system (Suc 0)) - ?f"
    and g: "rng_heap s 0 = (rng_heap ex_system 0)\<lparr>drawn := Suc (drawn (rng_heap ex_system 0))\<rparr>"
    by blast
  have "force (storage s 0) = Real3D (1 / 100) (1 / 75) 0"
    unfolding f0 f
    by (simp add: ex_system_sel ex_storage_def plus_Real3D_def)
  moreover have "force (storage s (Suc 0)) = Real3D (- (1 / 100)) (- (1 / 75)) 0"
    unfolding f1 f
    by (simp add: ex_system_sel ex_storage_def minus_Real3D_def)
  moreover have "drawn (rng_heap s 0) = 1"
    unfolding g by (simp add: ex_system_sel ex_rng_def)
  ultimately show ?thesis
    by (simp add: s)
qed

text \<open>
  C4. For a pair with squared separation below \<open>current_cutoff_sqr\<close> and distance
  \<open>dist > 0\<close> the transverse kernel returns a system in which the force of \<open>p1\<close> has
  grown by \<open>f = f_rand - f_damp\<close> and the force of \<open>p2\<close> has shrunk by the same \<open>f\<close>,
  where \<open>f_damp = pref3 \<omega>\<^sup>2 (P \<cdot> veldiff)\<close>, \<open>f_rand = pref4 \<omega> (P \<cdot> n)\<close>,
  \<open>P \<cdot> v = v - rhat (rhat \<cdot> v)\<close>, \<open>veldiff\<close> is the difference of the two velocities
  and \<open>n\<close> holds the next three numbers of the random source, each less \<open>0.5\<close>. The
  random source has been called exactly three times.
\<close>

theorem transverse_kernel_contribution:
  fixes th :: DPDThermostat and system :: System and p1 p2 a :: nat
    and r rhat veldiff n f_damp f_rand f :: Real3D and dist omega :: real and g :: RNG
  defines "r \<equiv> position (storage system p1) - position (storage system p2)"
  defines "dist \<equiv> sqrt (r3_sqr r)"
  defines "omega \<equiv> 1 - dist / current_cutoff th"
  defines "rhat \<equiv> r3_div r dist"
  defines "veldiff \<equiv> velocity (storage system p1) - velocity (storage system p2)"
  defines "g \<equiv> rng_heap system a"
  defines "n \<equiv> Real3D (draws g (drawn g) - 0.5) (draws g (drawn g + 1) - 0.5)
                       (draws g (drawn g + 2) - 0.5)"
  defines "f_damp \<equiv> r3_scale (pref3 th * omega\<^sup>2) (transverse_spec rhat veldiff)"
  defines "f_rand \<equiv> r3_scale (pref4 th * omega) (transverse_spec rhat n)"
  defines "f \<equiv> f_rand - f_damp"
  assumes rng: "this_rng th = Some a"
    and sqr: "current_cutoff_sqr th = current_cutoff th * current_cutoff th"
    and within: "r3_sqr r < current_cutoff_sqr th"
    and apart: "0 < dist"
  shows "\<exists>system'. frictionThermoTDPD th p1 p2 system = Inr system'
           \<and> force (storage system' p1) = force (storage system p1) + f
           \<and> force (storage system' p2) = force (storage system p2) - f
           \<and> rng_heap system' a = g\<lparr>drawn := drawn g + 3\<rparr>"
proof -
  have nz: "sqrt (r3_sqr (position (storage system p1) - position (storage system p2))) \<noteq> 0"
    using apart by (simp add: dist_def r_def)
  have distinct: "p1 \<noteq> p2"
    using nz by (rule apart_distinct)
  have cut: "current_cutoff th \<noteq> 0"
    using sqr within by (rule cutoff_nonzero)
  have "frictionThermoTDPD th p1 p2 system =
      Inr (stress rhat f (force_sub p2 f (force_add p1 f (advance a 3 system))))"
    using TDPD_within [OF rng _ nz cut] within
    by (simp add: Let_def r_def dist_def omega_def rhat_def veldiff_def g_def n_def f_damp_def
        f_rand_def f_def power2_eq_square project_transverse_spec)
  moreover have "force (storage (stress rhat f (force_sub p2 f (force_add p1 f (advance a 3 system)))) p1)
      = force (storage system p1) + f"
    using force_pair [OF distinct, of f "advance a 3 system"] by simp
  moreover have "force (storage (stress rhat f (force_sub p2 f (force_add p1 f (advance a 3 system)))) p2)
      = force (storage system p2) - f"
    using force_pair [OF distinct, of f "advance a 3 system"] by simp
  moreover have "rng_heap (stress rhat f (force_sub p2 f (force_add p1 f (advance a 3 system)))) a
      = g\<lparr>drawn := drawn g + 3\<rparr>"
    by (simp add: g_def)
  ultimately show ?thesis
    by blast
qed

theorem transverse_kernel_contribution_witness:
  "\<not> isl (frictionThermoTDPD ex_th 0 (Suc 0) ex_system)
   \<and> force (storage (projr (frictionThermoTDPD ex_th 0 (Suc 0) ex_system)) 0)
       = Real3D (- (46 / 75)) (23 / 50) (- (3 / 5))
   \<and> force (storage (projr (frictionThermoTDPD ex_th 0 (Suc 0) ex_system)) (Suc 0))
       = Real3D (46 / 75) (- (23 / 50)) (3 / 5)
   \<and> drawn (rng_heap (projr (frictionThermoTDPD ex_th 0 (Suc 0) ex_system)) 0) = 3"
proof -
  let ?r = "position (storage ex_system 0) - position (storage ex_system (Suc 0))"
  let ?d = "sqrt (r3_sqr ?r)"
  let ?omega = "1 - ?d / current_cutoff ex_th"
  let ?g = "rng_heap ex_system 0"
  let ?n = "Real3D (draws ?g (drawn ?g) - 0.5) (draws ?g (drawn ?g + 1) - 0.5)
              (draws ?g (drawn ?g + 2) - 0.5)"
  let ?f = "r3_scale (pref4 ex_th * ?omega) (transverse_spec (r3_div ?r ?d) ?n)
            - r3_scale (pref3 ex_th * ?omega\<^sup>2)
                (transverse_spec (r3_div ?r ?d)
                   (velocity (storage ex_system 0) - velocity (storage ex_system (Suc 0))))"
  have h1: "this_rng ex_th = Some 0"
    by (simp add: ex_th_def)
  have h2: "current_cutoff_sqr ex_th = current_cutoff ex_th * current_cutoff ex_th"
    by (simp add: ex_th_def)
  have h3: "r3_sqr ?r < current_cutoff_sqr ex_th"
    by (simp add: ex_dist2_01 ex_th_def)
  have h4: "0 < ?d"
    by (simp add: ex_dist2_01)
  have f: "?f = Real3D (- (46 / 75)) (23 / 50) (- (3 / 5))"
    unfolding ex_dist_01 unfolding ex_separation_01
    by (simp add: ex_system_sel ex_storage_def ex_rng_def ex_th_def r3_div_def r3_dot_def
        r3_scale_def minus_Real3D_def power2_eq_square transverse_spec_def)
  from transverse_kernel_contribution [OF h1 h2 h3 h4]
  obtain s where s: "frictionThermoTDPD ex_th 0 (Suc 0) ex_system = Inr s"
    and f0: "force (storage s 0) = force (storage ex_system 0) + ?f"
    and f1: "force (storage s (Suc 0)) = force (storage ex_system (Suc 0)) - ?f"
    and g: "rng_heap s 0 = ?g\<lparr>drawn := drawn ?g + 3\<rparr>"
    by blast
  have "force (storage s 0) = Real3D (- (46 / 75)) (23 / 50) (- (3 / 5))"
    unfolding f0 f
    by (simp add: ex_system_sel ex_storage_def plus_Real3D_def)
  moreover have "force (storage s (Suc 0)) = Real3D (46 / 75) (- (23 / 50)) (3 / 5)"
    unfolding f1 f
    by (simp add: ex_system_sel ex_storage_def minus_Real3D_def)
  moreover have "drawn (rng_heap s 0) = 3"
    unfolding g by (simp add: ex_system_sel ex_rng_def)
  ultimately show ?thesis
    by (simp add: s)
qed

text \<open>
  C1. For every pair that either kernel processes (squared separation below
  \<open>current_cutoff_sqr\<close>, the two positions apart) the change of the force of \<open>p1\<close> is
  the negative of the change of the force of \<open>p2\<close>, both made by the one call; so the
  sum of the two forces is what it was.
\<close>

theorem pair_forces_opposite:
  fixes th :: DPDThermostat and system :: System and p1 p2 a :: nat and r :: Real3D
  defines "r \<equiv> position (storage system p1) - position (storage system p2)"
  assumes rng: "this_rng th = Some a"
    and sqr: "current_cutoff_sqr th = current_cutoff th * current_cutoff th"
    and within: "r3_sqr r < current_cutoff_sqr th"
    and apart: "0 < sqrt (r3_sqr r)"
  shows "(\<exists>system'. frictionThermoDPD th p1 p2 system = Inr system'
            \<and> force (storage system' p1) - force (storage system p1)
                = - (force (storage system' p2) - force (storage system p2)))
       \<and> (\<exists>system'. frictionThermoTDPD th p1 p2 system = Inr system'
            \<and> force (storage system' p1) - force (storage system p1)
                = - (force (storage system' p2) - force (storage system p2)))"
proof -
  have nz: "sqrt (r3_sqr (position (storage system p1) - position (storage system p2))) \<noteq> 0"
    using apart by (simp add: r_def)
  have distinct: "p1 \<noteq> p2"
    using nz by (rule apart_distinct)
  have cut: "current_cutoff th \<noteq> 0"
    using sqr within by (rule cutoff_nonzero)
  have opposite: "force (storage (stress q f (force_sub p2 f (force_add p1 f s))) p1)
        - force (storage s' p1)
      = - (force (storage (stress q f (force_sub p2 f (force_add p1 f s))) p2)
            - force (storage s' p2))"
    if "storage s = storage s'" for q f s s'
    using force_pair [OF distinct, of f s] that by (simp add: add_sub_opposite)
  obtain q f where "frictionThermoDPD th p1 p2 system =
      Inr (stress q f (force_sub p2 f (force_add p1 f (advance a 1 system))))"
    using DPD_within [OF rng _ nz cut] within by (simp add: Let_def r_def)
  then have scalar: "\<exists>system'. frictionThermoDPD th p1 p2 system = Inr system'
      \<and> force (storage system' p1) - force (storage system p1)
          = - (force (storage system' p2) - force (storage system p2))"
    using opposite [of "advance a 1 system" system q f] by simp
  obtain q' f' where "frictionThermoTDPD th p1 p2 system =
      Inr (stress q' f' (force_sub p2 f' (force_add p1 f' (advance a 3 system))))"
    using TDPD_within [OF rng _ nz cut] within by (simp add: Let_def r_def)
  then have transverse: "\<exists>system'. frictionThermoTDPD th p1 p2 system = Inr system'
      \<and> force (storage system' p1) - force (storage system p1)
          = - (force (storage system' p2) - force (storage system p2))"
    using opposite [of "advance a 3 system" system q' f'] by simp
  from scalar transverse show ?thesis
    by (rule conjI)
qed

theorem pair_forces_opposite_witness:
  "\<not> isl (frictionThermoDPD ex_th 0 (Suc 0) ex_system)
   \<and> force (storage (projr (frictionThermoDPD ex_th 0 (Suc 0) ex_system)) 0)
         - force (storage ex_system 0)
       = - (force (storage (projr (frictionThermoDPD ex_th 0 (Suc 0) ex_system)) (Suc 0))
             - force (storage ex_system (Suc 0)))
   \<and> \<not> isl (frictionThermoTDPD ex_th 0 (Suc 0) ex_system)
   \<and> force (storage (projr (frictionThermoTDPD ex_th 0 (Suc 0) ex_system)) 0)
         - force (storage ex_system 0)
       = - (force (storage (projr (frictionThermoTDPD ex_th 0 (Suc 0) ex_system)) (Suc 0))
             - force (storage ex_system (Suc 0)))"
proof -
  let ?r = "position (storage ex_system 0) - position (storage ex_system (Suc 0))"
  have h1: "this_rng ex_th = Some 0"
    by (simp add: ex_th_def)
  have h2: "current_cutoff_sqr ex_th = current_cutoff ex_th * current_cutoff ex_th"
    by (simp add: ex_th_def)
  have h3: "r3_sqr ?r < current_cutoff_sqr ex_th"
    by (simp add: ex_dist2_01 ex_th_def)
  have h4: "0 < sqrt (r3_sqr ?r)"
    by (simp add: ex_dist2_01)
  from pair_forces_opposite [OF h1 h2 h3 h4]
  obtain s s' where "frictionThermoDPD ex_th 0 (Suc 0) ex_system = Inr s"
    and "force (storage s 0) - force (storage ex_system 0)
          = - (force (storage s (Suc 0)) - force (storage ex_system (Suc 0)))"
    and "frictionThermoTDPD ex_th 0 (Suc 0) ex_system = Inr s'"
    and "force (storage s' 0) - force (storage ex_system 0)
          = - (force (storage s' (Suc 0)) - force (storage ex_system (Suc 0)))"
    by blast
  then show ?thesis
    by simp
qed

text \<open>
  C5. In the transverse kernel, for a pair with squared separation below
  \<open>current_cutoff_sqr\<close> and the two positions apart, whatever the velocities and the
  numbers drawn: the damping contribution \<open>f_damp\<close>, the random contribution \<open>f_rand\<close>
  and their difference, which is the force the kernel adds to \<open>p1\<close>, each have scalar
  product \<open>0\<close> with the unit separation vector. So has the projection of any vector.
\<close>

theorem transverse_contributions_orthogonal:
  fixes th :: DPDThermostat and system :: System and p1 p2 a :: nat
    and r rhat veldiff n f_damp f_rand :: Real3D and dist omega :: real and g :: RNG
  defines "r \<equiv> position (storage system p1) - position (storage system p2)"
  defines "dist \<equiv> sqrt (r3_sqr r)"
  defines "omega \<equiv> 1 - dist / current_cutoff th"
  defines "rhat \<equiv> r3_div r dist"
  defines "veldiff \<equiv> velocity (storage system p1) - velocity (storage system p2)"
  defines "g \<equiv> rng_heap system a"
  defines "n \<equiv> Real3D (draws g (drawn g) - 0.5) (draws g (drawn g + 1) - 0.5)
                       (draws g (drawn g + 2) - 0.5)"
  defines "f_damp \<equiv> r3_scale (pref3 th * (omega * omega)) (project rhat veldiff)"
  defines "f_rand \<equiv> r3_scale (pref4 th * omega) (project rhat n)"
  assumes rng: "this_rng th = Some a"
    and sqr: "current_cutoff_sqr th = current_cutoff th * current_cutoff th"
    and within: "r3_sqr r < current_cutoff_sqr th"
    and apart: "0 < dist"
  shows "r3_dot rhat f_damp = 0 \<and> r3_dot rhat f_rand = 0 \<and> r3_dot rhat (f_rand - f_damp) = 0
       \<and> (\<exists>system'. frictionThermoTDPD th p1 p2 system = Inr system'
            \<and> force (storage system' p1) = force (storage system p1) + (f_rand - f_damp)
            \<and> force (storage system' p2) = force (storage system p2) - (f_rand - f_damp))
       \<and> (\<forall>v. r3_dot rhat (project rhat v) = 0)"
proof -
  have nz: "sqrt (r3_sqr (position (storage system p1) - position (storage system p2))) \<noteq> 0"
    using apart by (simp add: dist_def r_def)
  have distinct: "p1 \<noteq> p2"
    using nz by (rule apart_distinct)
  have cut: "current_cutoff th \<noteq> 0"
    using sqr within by (rule cutoff_nonzero)
  have "r3_sqr rhat = 1"
    unfolding rhat_def dist_def r_def using nz by (rule unit_length)
  then have orth: "r3_dot rhat (project rhat v) = 0" for v
    by (simp add: project_dot)
  have damp: "r3_dot rhat f_damp = 0"
    by (simp add: f_damp_def dot_scale orth)
  have rand: "r3_dot rhat f_rand = 0"
    by (simp add: f_rand_def dot_scale orth)
  have diff: "r3_dot rhat (f_rand - f_damp) = 0"
    by (simp add: dot_minus damp rand)
  have "frictionThermoTDPD th p1 p2 system =
      Inr (stress rhat (f_rand - f_damp)
             (force_sub p2 (f_rand - f_damp) (force_add p1 (f_rand - f_damp) (advance a 3 system))))"
    using TDPD_within [OF rng _ nz cut] within
    by (simp add: Let_def r_def dist_def omega_def rhat_def veldiff_def g_def n_def f_damp_def
        f_rand_def)
  then have applied: "\<exists>system'. frictionThermoTDPD th p1 p2 system = Inr system'
      \<and> force (storage system' p1) = force (storage system p1) + (f_rand - f_damp)
      \<and> force (storage system' p2) = force (storage system p2) - (f_rand - f_damp)"
    using force_pair [OF distinct, of "f_rand - f_damp" "advance a 3 system"] by simp
  from damp rand diff applied orth show ?thesis
    by blast
qed

theorem transverse_contributions_orthogonal_witness:
  "\<not> isl (frictionThermoTDPD ex_th 0 (Suc 0) ex_system)
   \<and> r3_dot (Real3D (- (3 / 5)) (- (4 / 5)) 0)
        (force (storage (projr (frictionThermoTDPD ex_th 0 (Suc 0) ex_system)) 0)) = 0
   \<and> r3_dot (Real3D (- (3 / 5)) (- (4 / 5)) 0)
        (force (storage (projr (frictionThermoTDPD ex_th 0 (Suc 0) ex_system)) (Suc 0))) = 0"
proof -
  let ?r = "position (storage ex_system 0) - position (storage ex_system (Suc 0))"
  let ?d = "sqrt (r3_sqr ?r)"
  let ?rhat = "r3_div ?r ?d"
  let ?omega = "1 - ?d / current_cutoff ex_th"
  let ?g = "rng_heap ex_system 0"
  let ?n = "Real3D (draws ?g (drawn ?g) - 0.5) (draws ?g (drawn ?g + 1) - 0.5)
              (draws ?g (drawn ?g + 2) - 0.5)"
  let ?f = "r3_scale (pref4 ex_th * ?omega) (project ?rhat ?n)
            - r3_scale (pref3 ex_th * (?omega * ?omega))
                (project ?rhat (velocity (storage ex_system 0) - velocity (storage ex_system (Suc 0))))"
  have h1: "this_rng ex_th = Some 0"
    by (simp add: ex_th_def)
  have h2: "current_cutoff_sqr ex_th = current_cutoff ex_th * current_cutoff ex_th"
    by (simp add: ex_th_def)
  have h3: "r3_sqr ?r < current_cutoff_sqr ex_th"
    by (simp add: ex_dist2_01 ex_th_def)
  have h4: "0 < ?d"
    by (simp add: ex_dist2_01)
  have rhat: "?rhat = Real3D (- (3 / 5)) (- (4 / 5)) 0"
    unfolding ex_dist_01 unfolding ex_separation_01 by (simp add: r3_div_def)
  have zero: "force (storage ex_system p) = 0" for p
    by (simp add: ex_system_sel ex_storage_def zero_Real3D_def)
  from transverse_contributions_orthogonal [OF h1 h2 h3 h4]
  obtain s where orth: "r3_dot ?rhat ?f = 0"
    and s: "frictionThermoTDPD ex_th 0 (Suc 0) ex_system = Inr s"
    and f0: "force (storage s 0) = force (storage ex_system 0) + ?f"
    and f1: "force (storage s (Suc 0)) = force (storage ex_system (Suc 0)) - ?f"
    by blast
  have "r3_dot ?rhat (force (storage s 0)) = 0"
    unfolding f0 zero using orth by simp
  moreover have "r3_dot ?rhat (force (storage s (Suc 0))) = 0"
    unfolding f1 zero using orth by (simp add: dot_minus dot_zero)
  ultimately show ?thesis
    unfolding rhat by (simp add: s)
qed

text \<open>
  C3. \<open>initialize\<close> computes, from the configuration of the thermostat, the cutoff of
  the Verlet list, the skin and the time step: \<open>current_cutoff\<close> is the cutoff of the
  Verlet list less the skin, \<open>current_cutoff_sqr\<close> its square, \<open>pref1 = gamma\<close>,
  \<open>pref2 = sqrt (24 temperature gamma / dt)\<close>, \<open>pref3 = tgamma\<close> and
  \<open>pref4 = sqrt (24 temperature tgamma / dt)\<close>; every other field stays. The time
  step is not zero and the two quotients are not negative, so that the square roots
  are real numbers.
\<close>

theorem initialize_prefactors:
  assumes "timestep \<noteq> 0"
    and "0 \<le> 24 * temperature th * gamma th / timestep"
    and "0 \<le> 24 * temperature th * tgamma th / timestep"
  shows "initialize timestep system th =
    th\<lparr>current_cutoff := verletCutoff (verletList th) - skin system,
        current_cutoff_sqr := (verletCutoff (verletList th) - skin system)\<^sup>2,
        pref1 := gamma th,
        pref2 := sqrt (24 * temperature th * gamma th / timestep),
        pref3 := tgamma th,
        pref4 := sqrt (24 * temperature th * tgamma th / timestep)\<rparr>"
  using assms by (simp add: initialize_def Let_def power2_eq_square)

theorem initialize_prefactors_witness:
  "initialize 6 ex_system (ex_mem\<lparr>verletList := ex_vl, gamma := 1, tgamma := 4, temperature := 1\<rparr>) =
    ex_mem\<lparr>verletList := ex_vl, gamma := 1, tgamma := 4, temperature := 1,
            current_cutoff := 1, current_cutoff_sqr := 1,
            pref1 := 1, pref2 := 2, pref3 := 4, pref4 := 4\<rparr>"
proof -
  let ?th = "ex_mem\<lparr>verletList := ex_vl, gamma := 1, tgamma := 4, temperature := 1\<rparr>"
  have h1: "(6::real) \<noteq> 0"
    by simp
  have h2: "0 \<le> 24 * temperature ?th * gamma ?th / 6"
    by simp
  have h3: "0 \<le> 24 * temperature ?th * tgamma ?th / 6"
    by simp
  show ?thesis
    using initialize_prefactors [OF h1 h2 h3, of ex_system]
    by (simp add: ex_vl_def ex_system_def sqrt_16)
qed

text \<open>
  C8, for a skin below the cutoff of the Verlet list. After a construction, and after
  every call of \<open>initialize\<close> whatever the time step and the object it is called on,
  \<open>current_cutoff\<close> is the cutoff of the Verlet list less the skin, which is then
  positive, and \<open>current_cutoff_sqr\<close> is its square, which is positive too.
\<close>

theorem cutoff_positive_if_skin_below:
  assumes "skin system < verletCutoff vl"
  shows "(\<forall>th. DPDThermostat_ctor mem system vl = Inr th \<longrightarrow>
            current_cutoff th = verletCutoff vl - skin system \<and> 0 < current_cutoff th
            \<and> current_cutoff_sqr th = (current_cutoff th)\<^sup>2 \<and> 0 < current_cutoff_sqr th)
       \<and> (\<forall>th0. verletList th0 = vl \<longrightarrow>
            current_cutoff (initialize timestep system th0) = verletCutoff vl - skin system
            \<and> 0 < current_cutoff (initialize timestep system th0)
            \<and> current_cutoff_sqr (initialize timestep system th0)
                = (current_cutoff (initialize timestep system th0))\<^sup>2
            \<and> 0 < current_cutoff_sqr (initialize timestep system th0))"
proof (intro conjI allI impI)
  fix th
  assume "DPDThermostat_ctor mem system vl = Inr th"
  then have "current_cutoff th = verletCutoff vl - skin system"
    and "current_cutoff_sqr th = current_cutoff th * current_cutoff th"
    by (auto simp add: DPDThermostat_ctor_def Let_def split: option.splits)
  with assms show "current_cutoff th = verletCutoff vl - skin system"
    and "0 < current_cutoff th"
    and "current_cutoff_sqr th = (current_cutoff th)\<^sup>2"
    and "0 < current_cutoff_sqr th"
    by (simp_all add: power2_eq_square)
next
  fix th0 :: DPDThermostat
  assume "verletList th0 = vl"
  then have "current_cutoff (initialize timestep system th0) = verletCutoff vl - skin system"
    and "current_cutoff_sqr (initialize timestep system th0)
          = current_cutoff (initialize timestep system th0)
            * current_cutoff (initialize timestep system th0)"
    by (simp_all add: initialize_def Let_def)
  with assms show "current_cutoff (initialize timestep system th0) = verletCutoff vl - skin system"
    and "0 < current_cutoff (initialize timestep system th0)"
    and "current_cutoff_sqr (initialize timestep system th0)
          = (current_cutoff (initialize timestep system th0))\<^sup>2"
    and "0 < current_cutoff_sqr (initialize timestep system th0)"
    by (simp_all add: power2_eq_square)
qed

theorem cutoff_positive_if_skin_below_witness:
  "skin ex_system < verletCutoff ex_vl
   \<and> \<not> isl (DPDThermostat_ctor ex_mem ex_system ex_vl)
   \<and> 0 < current_cutoff (projr (DPDThermostat_ctor ex_mem ex_system ex_vl))
   \<and> 0 < current_cutoff_sqr (projr (DPDThermostat_ctor ex_mem ex_system ex_vl))
   \<and> verletList ex_th = ex_vl
   \<and> 0 < current_cutoff (initialize 0 ex_system ex_th)
   \<and> 0 < current_cutoff_sqr (initialize 0 ex_system ex_th)"
proof -
  have h: "skin ex_system < verletCutoff ex_vl"
    by (simp add: ex_system_def ex_vl_def)
  obtain th where c: "DPDThermostat_ctor ex_mem ex_system ex_vl = Inr th"
    by (simp add: DPDThermostat_ctor_def ex_system_def)
  have v: "verletList ex_th = ex_vl"
    by (simp add: ex_th_def)
  from cutoff_positive_if_skin_below [OF h, of ex_mem 0] c v
  have "0 < current_cutoff th \<and> 0 < current_cutoff_sqr th"
    and "0 < current_cutoff (initialize 0 ex_system ex_th)
         \<and> 0 < current_cutoff_sqr (initialize 0 ex_system ex_th)"
    by blast+
  with h c v show ?thesis
    by simp
qed

text \<open>
  C8 without that premise fails: with cutoff \<open>3/2\<close> of the Verlet list and skin \<open>2\<close>
  the constructor succeeds, and it and \<open>initialize\<close> leave \<open>current_cutoff = - 1/2\<close>.
\<close>

theorem cutoff_positive_counterexample:
  "\<not> isl (DPDThermostat_ctor ex_mem (ex_system\<lparr>skin := 2\<rparr>) ex_vl)
   \<and> \<not> 0 < current_cutoff (projr (DPDThermostat_ctor ex_mem (ex_system\<lparr>skin := 2\<rparr>) ex_vl))
   \<and> \<not> 0 < current_cutoff (initialize 6 (ex_system\<lparr>skin := 2\<rparr>) ex_th)"
  by (simp add: DPDThermostat_ctor_def initialize_def ex_system_def ex_vl_def ex_th_def)

text \<open>
  C9. The constructor fails with the runtime error \<open>system has no RNG\<close> when the
  system has no random source; when it has one, the constructor returns an object,
  which holds the pointer to that random source.
\<close>

theorem ctor_fails_without_rng:
  "(rng system = None \<longrightarrow>
      DPDThermostat_ctor mem system vl = Inl (RuntimeError ''system has no RNG''))
   \<and> (\<forall>a. rng system = Some a \<longrightarrow>
         (\<exists>th. DPDThermostat_ctor mem system vl = Inr th \<and> this_rng th = Some a))"
  by (simp add: DPDThermostat_ctor_def Let_def)

theorem ctor_fails_without_rng_witness:
  "DPDThermostat_ctor ex_mem (ex_system\<lparr>rng := None\<rparr>) ex_vl = Inl (RuntimeError ''system has no RNG'')
   \<and> \<not> isl (DPDThermostat_ctor ex_mem ex_system ex_vl)
   \<and> this_rng (projr (DPDThermostat_ctor ex_mem ex_system ex_vl)) = Some 0"
proof -
  have n: "rng (ex_system\<lparr>rng := None\<rparr>) = None"
    by simp
  have y: "rng ex_system = Some 0"
    by (simp add: ex_system_def)
  from ctor_fails_without_rng [of "ex_system\<lparr>rng := None\<rparr>" ex_mem ex_vl] n
  have "DPDThermostat_ctor ex_mem (ex_system\<lparr>rng := None\<rparr>) ex_vl
      = Inl (RuntimeError ''system has no RNG'')"
    by blast
  moreover from ctor_fails_without_rng [of ex_system ex_mem ex_vl] y
  obtain th where "DPDThermostat_ctor ex_mem ex_system ex_vl = Inr th" and "this_rng th = Some 0"
    by blast
  ultimately show ?thesis
    by simp
qed

text \<open>
  C10. The constructor sets \<open>gamma\<close> and \<open>temperature\<close> to \<open>0\<close> and does not assign
  \<open>tgamma\<close>: the object it returns has the \<open>tgamma\<close> that the memory held before
  (\<open>tgamma mem\<close>). No call other than \<open>setTGamma\<close> assigns the field either, so after
  any calls of \<open>setGamma\<close>, \<open>setTemperature\<close>, \<open>initialize\<close>, \<open>heatUp\<close> and
  \<open>coolDown\<close> the object still has that value. It is the value that the test
  \<open>tgamma > 0.0\<close> of \<open>thermalize\<close> reads to decide whether the transverse kernel runs
  for a pair, and that \<open>initialize\<close> copies into \<open>pref3\<close> and puts under the square
  root of \<open>pref4\<close>. \<open>setTGamma\<close> replaces it.
\<close>

theorem ctor_leaves_tgamma_unassigned:
  assumes ctor: "DPDThermostat_ctor mem system vl = Inr th"
    and others: "\<forall>c \<in> set cs. \<not> is_setTGamma c"
  shows "gamma th = 0 \<and> temperature th = 0 \<and> tgamma th = tgamma mem
       \<and> tgamma (calls cs th) = tgamma mem
       \<and> thermalize_pair (calls cs th) p s =
           (case (if 0 < gamma (calls cs th)
                  then frictionThermoDPD (calls cs th) (fst p) (snd p) s else Inr s) of
              Inl e \<Rightarrow> Inl e
            | Inr s1 \<Rightarrow>
                (if 0 < tgamma mem then frictionThermoTDPD (calls cs th) (fst p) (snd p) s1
                 else Inr s1))
       \<and> (pairs vl = [p] \<longrightarrow>
            thermalize updateGhostsV (calls cs th) s =
              (case (if 0 < gamma (calls cs th)
                     then frictionThermoDPD (calls cs th) (fst p) (snd p) (updateGhostsV s)
                     else Inr (updateGhostsV s)) of
                 Inl e \<Rightarrow> Inl e
               | Inr s1 \<Rightarrow>
                   (if 0 < tgamma mem then frictionThermoTDPD (calls cs th) (fst p) (snd p) s1
                    else Inr s1)))
       \<and> pref3 (initialize timestep system' (calls cs th)) = tgamma mem
       \<and> (timestep \<noteq> 0 \<longrightarrow> 0 \<le> 24 * temperature (calls cs th) * tgamma mem / timestep \<longrightarrow>
            pref4 (initialize timestep system' (calls cs th))
              = sqrt (24 * temperature (calls cs th) * tgamma mem / timestep))
       \<and> tgamma (calls (cs @ [SetTGamma x]) th) = x"
proof -
  from ctor have g: "gamma th = 0" and t: "temperature th = 0" and tg: "tgamma th = tgamma mem"
    and vl: "verletList th = vl"
    by (auto simp add: DPDThermostat_ctor_def Let_def split: option.splits)
  have kept: "tgamma (calls cs th) = tgamma mem"
    using calls_tgamma [OF others, of th] tg by simp
  have vl': "verletList (calls cs th) = vl"
    using calls_verletList [of cs th] vl by simp
  have pair: "thermalize_pair (calls cs th) p s' =
      (case (if 0 < gamma (calls cs th)
             then frictionThermoDPD (calls cs th) (fst p) (snd p) s' else Inr s') of
         Inl e \<Rightarrow> Inl e
       | Inr s1 \<Rightarrow>
           (if 0 < tgamma mem then frictionThermoTDPD (calls cs th) (fst p) (snd p) s1
            else Inr s1))" for s'
    by (simp add: thermalize_pair_def kept split: sum.splits)
  have loop: "thermalize updateGhostsV (calls cs th) s =
      (case (if 0 < gamma (calls cs th)
             then frictionThermoDPD (calls cs th) (fst p) (snd p) (updateGhostsV s)
             else Inr (updateGhostsV s)) of
         Inl e \<Rightarrow> Inl e
       | Inr s1 \<Rightarrow>
           (if 0 < tgamma mem then frictionThermoTDPD (calls cs th) (fst p) (snd p) s1
            else Inr s1))" if "pairs vl = [p]"
  proof -
    have "thermalize updateGhostsV (calls cs th) s =
        (case thermalize_pair (calls cs th) p (updateGhostsV s) of
           Inl e \<Rightarrow> Inl e | Inr s1 \<Rightarrow> Inr s1)"
      using that by (simp add: thermalize_def vl' split: sum.splits)
    also have "\<dots> = thermalize_pair (calls cs th) p (updateGhostsV s)"
      by (simp split: sum.splits)
    finally show ?thesis
      by (simp only: pair)
  qed
  have p3: "pref3 (initialize timestep system' (calls cs th)) = tgamma mem"
    by (simp add: initialize_def Let_def kept)
  have p4: "pref4 (initialize timestep system' (calls cs th))
      = sqrt (24 * temperature (calls cs th) * tgamma mem / timestep)"
    by (simp add: initialize_def Let_def kept)
  have "calls (cs' @ [SetTGamma x]) th' = setTGamma x (calls cs' th')" for cs' th'
    by (induction cs' arbitrary: th') simp_all
  then have set: "tgamma (calls (cs @ [SetTGamma x]) th) = x"
    by (simp add: setTGamma_def)
  from g t tg kept pair [of s] loop p3 p4 set show ?thesis
    by blast
qed

theorem ctor_leaves_tgamma_unassigned_witness:
  "\<not> isl (DPDThermostat_ctor ex_mem ex_system (ex_vl\<lparr>pairs := [(0, Suc 0)]\<rparr>))
   \<and> tgamma (calls [SetGamma 1, SetTemperature 1, Initialize 6 ex_system, HeatUp, CoolDown]
        (projr (DPDThermostat_ctor ex_mem ex_system (ex_vl\<lparr>pairs := [(0, Suc 0)]\<rparr>)))) = 7
   \<and> pref3 (initialize 6 ex_system
        (calls [SetGamma 1, SetTemperature 1, Initialize 6 ex_system, HeatUp, CoolDown]
          (projr (DPDThermostat_ctor ex_mem ex_system (ex_vl\<lparr>pairs := [(0, Suc 0)]\<rparr>))))) = 7
   \<and> pref4 (initialize 6 ex_system
        (calls [SetGamma 1, SetTemperature 1, Initialize 6 ex_system, HeatUp, CoolDown]
          (projr (DPDThermostat_ctor ex_mem ex_system (ex_vl\<lparr>pairs := [(0, Suc 0)]\<rparr>))))) = sqrt 28
   \<and> thermalize (\<lambda>s. s)
        (calls [SetTemperature 1, Initialize 6 ex_system]
          (projr (DPDThermostat_ctor ex_mem ex_system (ex_vl\<lparr>pairs := [(0, Suc 0)]\<rparr>))))
        ex_system
       = frictionThermoTDPD
           (calls [SetTemperature 1, Initialize 6 ex_system]
             (projr (DPDThermostat_ctor ex_mem ex_system (ex_vl\<lparr>pairs := [(0, Suc 0)]\<rparr>))))
           0 (Suc 0) ex_system"
proof -
  let ?vl = "ex_vl\<lparr>pairs := [(0, Suc 0)]\<rparr>"
  let ?cs = "[SetGamma 1, SetTemperature 1, Initialize 6 ex_system, HeatUp, CoolDown]"
  let ?ds = "[SetTemperature 1, Initialize 6 ex_system]"
  obtain th where c: "DPDThermostat_ctor ex_mem ex_system ?vl = Inr th"
    by (simp add: DPDThermostat_ctor_def ex_system_def)
  have o: "\<forall>c \<in> set ?cs. \<not> is_setTGamma c"
    by simp
  have o': "\<forall>c \<in> set ?ds. \<not> is_setTGamma c"
    by simp
  note u = ctor_leaves_tgamma_unassigned
    [OF c o, where p = "(0, Suc 0)" and s = ex_system and updateGhostsV = "\<lambda>s. s" and x = 0
      and timestep = 6 and system' = ex_system]
  note u' = ctor_leaves_tgamma_unassigned
    [OF c o', where p = "(0, Suc 0)" and s = ex_system and updateGhostsV = "\<lambda>s. s" and x = 0
      and timestep = 6 and system' = ex_system]
  have m: "tgamma ex_mem = 7"
    by (simp add: ex_mem_def)
  have tg: "tgamma (calls ?cs th) = 7"
    using u m by simp
  have p3: "pref3 (initialize 6 ex_system (calls ?cs th)) = 7"
    using u m by simp
  have temp: "temperature (calls ?cs th) = 1"
    by (simp add: setGamma_def setTemperature_def initialize_def heatUp_def coolDown_def Let_def)
  have p4: "pref4 (initialize 6 ex_system (calls ?cs th)) = sqrt 28"
    using u m temp by simp
  have gam: "gamma (calls ?ds th) = 0"
    using u' by (simp add: setTemperature_def initialize_def Let_def)
  have l: "pairs ?vl = [(0, Suc 0)]"
    by simp
  have d: "thermalize (\<lambda>s. s) (calls ?ds th) ex_system
      = frictionThermoTDPD (calls ?ds th) 0 (Suc 0) ex_system"
    using u' l m gam by simp
  from c tg p3 p4 d show ?thesis
    by simp
qed

end
